theory Spec2Isabelle
  imports Complex_Main "HOL-Library.AList"
begin

section \<open>Configuration values\<close>

text \<open>
  A configuration is what \<^verbatim>\<open>json.load\<close> hands to \<^verbatim>\<open>check_conf\<close>: nested
  Python dictionaries with string keys whose leaves are strings, integers, floats
  (including the NaN and Infinity sentinels) and booleans.  A dictionary is an association
  list in insertion order; \<open>map_of\<close> is the lookup and \<open>AList.update\<close> the
  assignment \<^verbatim>\<open>d[k] = v\<close> (an existing key keeps its position, a new key goes to the end).
  A Python \<^verbatim>\<open>float\<close> is only ever tested for its kind here, never computed with, so a
  finite one carries its value as a rational.
\<close>

datatype pyfloat = Finite rat | PosInf | NegInf | NaN

datatype jvalue =
    JBool bool
  | JInt int
  | JFloat pyfloat
  | JStr string
  | JDict "(string \<times> jvalue) list"

type_synonym cfg = "(string \<times> jvalue) list"

text \<open>
  A Python dictionary has each key once, at every nesting level.  The association lists
  that stand for dictionaries therefore satisfy \<open>wf_value\<close>.
\<close>

fun wf_value :: "jvalue \<Rightarrow> bool" where
  "wf_value (JDict d) = (distinct (map fst d) \<and> list_all (\<lambda>kv. wf_value (snd kv)) d)"
| "wf_value _ = True"

fun is_leaf :: "jvalue \<Rightarrow> bool" where
  "is_leaf (JDict d) = False"
| "is_leaf _ = True"

text \<open>The value found by following a path of keys down the nested dictionaries.\<close>

fun lookup_path :: "jvalue \<Rightarrow> string list \<Rightarrow> jvalue option" where
  "lookup_path v [] = Some v"
| "lookup_path (JDict d) (k # ks) =
     (case map_of d k of None \<Rightarrow> None | Some v \<Rightarrow> lookup_path v ks)"
| "lookup_path _ (k # ks) = None"


section \<open>Failures\<close>

text \<open>
  Every way in which a call can fail to return is a value of \<open>error\<close>:
  \<^item> \<open>SystemExit n msg\<close>: \<^verbatim>\<open>logging.error(msg)\<close> followed by \<^verbatim>\<open>sys.exit(n)\<close>, which ends
    the whole invocation with status \<open>n\<close>;
  \<^item> \<open>KeyError k\<close>, \<open>TypeError\<close>: the exceptions of a subscript or a membership test;
  \<^item> \<open>SchemaViolation vs\<close>: the exception raised by the schema checker, naming the
    offending keys;
  \<^item> \<open>StateMachineViolation\<close>: raised by the state machine on an illegal pipeline;
  \<^item> \<open>CollaboratorError msg\<close>: a failure of the image or disparity checks of Pandora.
\<close>

datatype violation = MissingKey "string list" | Unmet "string list"

datatype error =
    SystemExit int string
  | KeyError string
  | TypeError
  | SchemaViolation "violation list"
  | StateMachineViolation
  | CollaboratorError string

text \<open>Sequencing: the first failure is the result, and nothing after it is run.\<close>

definition then_do :: "error + 'a \<Rightarrow> ('a \<Rightarrow> error + 'b) \<Rightarrow> error + 'b" where
  "then_do r f = (case r of Inl e \<Rightarrow> Inl e | Inr x \<Rightarrow> f x)"


section \<open>Python operations used by the module\<close>

text \<open>\<^verbatim>\<open>v[k]\<close> with a string key: only a dictionary can be subscripted by a string.\<close>

fun py_getitem :: "jvalue \<Rightarrow> string \<Rightarrow> error + jvalue" where
  "py_getitem (JDict d) k = (case map_of d k of None \<Rightarrow> Inl (KeyError k) | Some v \<Rightarrow> Inr v)"
| "py_getitem _ k = Inl TypeError"

fun is_substring :: "string \<Rightarrow> string \<Rightarrow> bool" where
  "is_substring k [] = (k = [])"
| "is_substring k (c # s) = (take (length k) (c # s) = k \<or> is_substring k s)"

text \<open>
  \<^verbatim>\<open>k in v\<close>: key membership for a dictionary, substring for a string, and a
  \<^verbatim>\<open>TypeError\<close> for a number or a boolean, which are not iterable.
\<close>

fun py_contains :: "string \<Rightarrow> jvalue \<Rightarrow> error + bool" where
  "py_contains k (JDict d) = Inr (k \<in> set (map fst d))"
| "py_contains k (JStr s) = Inr (is_substring k s)"
| "py_contains k _ = Inl TypeError"

text \<open>
  \<^verbatim>\<open>set(ks).issubset(v)\<close>: every element of \<open>ks\<close> is among the items that iterating
  over \<open>v\<close> yields: the keys of a dictionary, the one-character strings of a string.
\<close>

fun py_issubset :: "string list \<Rightarrow> jvalue \<Rightarrow> error + bool" where
  "py_issubset ks (JDict d) = Inr (list_all (\<lambda>k. k \<in> set (map fst d)) ks)"
| "py_issubset ks (JStr s) = Inr (list_all (\<lambda>k. k \<in> set (map (\<lambda>c. [c]) s)) ks)"
| "py_issubset ks _ = Inl TypeError"

text \<open>\<^verbatim>\<open>operator.xor\<close> on two booleans.\<close>

definition xor_bool :: "bool \<Rightarrow> bool \<Rightarrow> bool" where
  "xor_bool a b = (a \<noteq> b)"

text \<open>\<^verbatim>\<open>isinstance(v, float)\<close>: true of every float, the sentinels included.\<close>

fun isinstance_float :: "jvalue \<Rightarrow> bool" where
  "isinstance_float (JFloat f) = True"
| "isinstance_float _ = False"

text \<open>
  \<^verbatim>\<open>np.isnan\<close> and \<^verbatim>\<open>np.isinf\<close> as the schema uses them, as predicates: on a string or
  a dictionary numpy raises, and a predicate that raises is a predicate that is not met.
\<close>

fun np_isnan :: "jvalue \<Rightarrow> bool" where
  "np_isnan (JFloat f) = (f = NaN)"
| "np_isnan _ = False"

fun np_isinf :: "jvalue \<Rightarrow> bool" where
  "np_isinf (JFloat f) = (f = PosInf \<or> f = NegInf)"
| "np_isinf _ = False"


section \<open>Imported from Pandora: merging, extracting and concatenating configurations\<close>

text \<open>
  Modelled from the spec: \<^verbatim>\<open>update_conf\<close> is imported from \<^verbatim>\<open>pandora.check_json\<close>
  of the Pandora package, outside this repository.  The specification (ConfigMerger) describes
  it: the user configuration is laid over the defaults; for a key present in both whose
  two values are mappings, the two are merged recursively; otherwise the user's value
  wins if there is one, and else the default is kept.
\<close>

fun update_conf :: "cfg \<Rightarrow> cfg \<Rightarrow> cfg" where
  "update_conf d [] = d"
| "update_conf d ((k, v) # us) =
     update_conf
       (AList.update k
          (case v of
             JDict u \<Rightarrow> (case map_of d k of
                           Some (JDict d') \<Rightarrow> JDict (update_conf d' u)
                         | _ \<Rightarrow> v)
           | _ \<Rightarrow> v) d) us"

text \<open>
  Modelled from the spec: the value that \<open>update_conf\<close> stores for a user value \<open>v\<close>
  over the default \<open>dv\<close>, by the same three cases.
\<close>

definition overlay :: "jvalue option \<Rightarrow> jvalue \<Rightarrow> jvalue" where
  "overlay dv v =
     (case v of
        JDict u \<Rightarrow> (case dv of Some (JDict d') \<Rightarrow> JDict (update_conf d' u) | _ \<Rightarrow> v)
      | _ \<Rightarrow> v)"

text \<open>
  Modelled from the spec: \<^verbatim>\<open>get_config_pipeline\<close> is imported from
  \<^verbatim>\<open>pandora.check_json\<close>; the specification says that it extracts the \<^verbatim>\<open>pipeline\<close>
  subsection of the user configuration.
\<close>

definition get_config_pipeline :: "cfg \<Rightarrow> cfg" where
  "get_config_pipeline user_cfg =
     (case map_of user_cfg ''pipeline'' of None \<Rightarrow> [] | Some v \<Rightarrow> [(''pipeline'', v)])"

text \<open>
  Modelled from the spec: \<^verbatim>\<open>get_config_input\<close> is imported from
  \<^verbatim>\<open>pandora.check_json\<close>; the specification says that it extracts the \<^verbatim>\<open>input\<close>
  subsection of the user configuration.
\<close>

definition get_config_input :: "cfg \<Rightarrow> cfg" where
  "get_config_input user_cfg =
     (case map_of user_cfg ''input'' of None \<Rightarrow> [] | Some v \<Rightarrow> [(''input'', v)])"

text \<open>
  Modelled from the spec: \<^verbatim>\<open>concat_conf\<close> is imported from \<^verbatim>\<open>pandora.check_json\<close>;
  the specification says that it concatenates the validated sections into one
  configuration.  Keys stay unique in a configuration, so each section is entered key
  by key.
\<close>

definition concat_conf :: "cfg list \<Rightarrow> cfg" where
  "concat_conf cfg_list =
     foldl (\<lambda>acc conf. foldl (\<lambda>a kv. AList.update (fst kv) (snd kv) a) acc conf) [] cfg_list"


section \<open>The schema checker\<close>

text \<open>
  Modelled from the spec: \<^verbatim>\<open>json_checker\<close> is a library outside this repository.
  The specification (Schema, SchemaValidator) describes a constraint as an exact type, a
  conjunction, a disjunction or a predicate, and a schema as a mapping from keys to
  constraints: every key of the schema must be present and its value must conform; an
  exact type is met iff the value has that type, a conjunction iff all parts are met, a
  disjunction iff at least one is.  A failed validation raises a violation that names
  the offending keys.
\<close>

datatype constraint =
    IsInt
  | IsStr
  | IsDict
  | And "constraint list"
  | Or "constraint list"
  | Pred "jvalue \<Rightarrow> bool"
  | Schema "(string \<times> constraint) list"

text \<open>
  Modelled from the spec: whether a value meets a constraint.  A schema inside a
  constraint is met by a mapping that has every key of the schema, with a conforming
  value.
\<close>

fun conforms :: "constraint \<Rightarrow> jvalue \<Rightarrow> bool" where
  "conforms IsInt v = (case v of JInt n \<Rightarrow> True | _ \<Rightarrow> False)"
| "conforms IsStr v = (case v of JStr s \<Rightarrow> True | _ \<Rightarrow> False)"
| "conforms IsDict v = (case v of JDict d \<Rightarrow> True | _ \<Rightarrow> False)"
| "conforms (And cs) v = list_all (\<lambda>c. conforms c v) cs"
| "conforms (Or cs) v = list_ex (\<lambda>c. conforms c v) cs"
| "conforms (Pred p) v = p v"
| "conforms (Schema s) v =
     (case v of
        JDict d \<Rightarrow> list_all (\<lambda>kc. case map_of d (fst kc) of
                                    None \<Rightarrow> False
                                  | Some x \<Rightarrow> conforms (snd kc) x) s
      | _ \<Rightarrow> False)"

text \<open>
  Modelled from the spec: the violations of a constraint by the value found (or not
  found) at a path of keys, each with the path of the offending key.
\<close>

fun violations :: "string list \<Rightarrow> constraint \<Rightarrow> jvalue option \<Rightarrow> violation list" where
  "violations path c None = [MissingKey path]"
| "violations path (Schema s) (Some (JDict d)) =
     concat (map (\<lambda>kc. violations (path @ [fst kc]) (snd kc) (map_of d (fst kc))) s)"
| "violations path c (Some v) = (if conforms c v then [] else [Unmet path])"

text \<open>
  Modelled from the spec: \<^verbatim>\<open>Checker(schema).validate(cfg)\<close> returns nothing when the
  configuration meets the schema and raises the violations otherwise.
\<close>

definition validate :: "(string \<times> constraint) list \<Rightarrow> cfg \<Rightarrow> error + unit" where
  "validate schema c =
     (case violations [] (Schema schema) (Some (JDict c)) of
        [] \<Rightarrow> Inr ()
      | vs \<Rightarrow> Inl (SchemaViolation vs))"


section \<open>Collaborators outside the module\<close>

text \<open>
  The remaining imports reach the file system or belong to other packages; the module
  only calls them, so they are parameters of the model:
  \<^item> \<open>can_open\<close>: whether \<^verbatim>\<open>rasterio\<close> can open the file of that name;
  \<^item> \<open>check_images\<close>, \<open>check_disparities\<close>: the two checks of \<^verbatim>\<open>pandora.check_json\<close>,
    which return nothing or fail.
\<close>

record collaborators =
  can_open :: "string \<Rightarrow> bool"
  check_images :: "jvalue \<Rightarrow> jvalue \<Rightarrow> error option"
  check_disparities :: "jvalue \<Rightarrow> jvalue \<Rightarrow> error option"

text \<open>
  \<^verbatim>\<open>rasterio_can_open_mandatory\<close> as a schema predicate: a value that is not a file name
  cannot be opened.
\<close>

definition rasterio_can_open_mandatory :: "(string \<Rightarrow> bool) \<Rightarrow> jvalue \<Rightarrow> bool" where
  "rasterio_can_open_mandatory opens v = (case v of JStr s \<Rightarrow> opens s | _ \<Rightarrow> False)"

text \<open>
  The state machine \<^verbatim>\<open>Pandora2DMachine\<close> lives in \<^verbatim>\<open>pandora2d.state_machine\<close>.  The
  module calls \<^verbatim>\<open>check_conf\<close> on it with the pipeline section and then reads its
  attribute \<^verbatim>\<open>pipeline_cfg\<close>: a machine is the function from the pipeline section to
  either the failure of the check or the \<^verbatim>\<open>pipeline_cfg\<close> it leaves behind.
\<close>

type_synonym machine = "jvalue \<Rightarrow> error + cfg"


section \<open>The module \<^verbatim>\<open>check_json\<close>\<close>

subsection \<open>Schemas and defaults\<close>

definition input_configuration_schema :: "(string \<Rightarrow> bool) \<Rightarrow> (string \<times> constraint) list" where
  "input_configuration_schema opens =
     [(''img_left'', And [IsStr, Pred (rasterio_can_open_mandatory opens)]),
      (''img_right'', And [IsStr, Pred (rasterio_can_open_mandatory opens)]),
      (''nodata_left'', Or [IsInt, Pred np_isnan, Pred np_isinf]),
      (''nodata_right'', Or [IsInt, Pred np_isnan, Pred np_isinf]),
      (''disp_min_col'', IsInt),
      (''disp_max_col'', IsInt),
      (''disp_min_row'', IsInt),
      (''disp_max_row'', IsInt)]"

definition estim_input_configuration_schema :: "(string \<Rightarrow> bool) \<Rightarrow> (string \<times> constraint) list" where
  "estim_input_configuration_schema opens =
     [(''img_left'', And [IsStr, Pred (rasterio_can_open_mandatory opens)]),
      (''img_right'', And [IsStr, Pred (rasterio_can_open_mandatory opens)]),
      (''nodata_left'', Or [IsInt, Pred np_isnan, Pred np_isinf]),
      (''nodata_right'', Or [IsInt, Pred np_isnan, Pred np_isinf]),
      (''disp_min_col'', Pred np_isnan),
      (''disp_max_col'', Pred np_isnan),
      (''disp_min_row'', Pred np_isnan),
      (''disp_max_row'', Pred np_isnan)]"

definition default_short_configuration_input :: cfg where
  "default_short_configuration_input =
     [(''input'', JDict
        [(''nodata_left'', JInt (- 9999)),
         (''nodata_right'', JInt (- 9999)),
         (''disp_min_col'', JFloat NaN),
         (''disp_max_col'', JFloat NaN),
         (''disp_min_row'', JFloat NaN),
         (''disp_max_row'', JFloat NaN)])]"

text \<open>The four disparity bounds that \<^verbatim>\<open>check_conf\<close> looks for in the input section.\<close>

definition disparity_keys :: "string list" where
  "disparity_keys = [''disp_min_col'', ''disp_max_col'', ''disp_min_row'', ''disp_max_row'']"

definition exclusivity_message :: string where
  "exclusivity_message =
     ''Disparities can't be set in config file with estimation step (and vice versa)''"

definition nodata_message :: string where
  "nodata_message =
     ''nodata_right must be int type with sad or ssd matching_cost_method (ex: 9999)''"

subsection \<open>Subscripts\<close>

text \<open>\<^verbatim>\<open>cfg[a][b]\<close> and \<^verbatim>\<open>cfg[a][b][c]\<close>, failing where Python does.\<close>

definition subscript2 :: "cfg \<Rightarrow> string \<Rightarrow> string \<Rightarrow> error + jvalue" where
  "subscript2 c a b = then_do (py_getitem (JDict c) a) (\<lambda>x. py_getitem x b)"

definition subscript3 :: "cfg \<Rightarrow> string \<Rightarrow> string \<Rightarrow> string \<Rightarrow> error + jvalue" where
  "subscript3 c a b k = then_do (subscript2 c a b) (\<lambda>x. py_getitem x k)"

text \<open>A collaborator that returns nothing or fails.\<close>

definition run_check :: "error option \<Rightarrow> error + unit" where
  "run_check r = (case r of None \<Rightarrow> Inr () | Some e \<Rightarrow> Inl e)"

subsection \<open>\<^verbatim>\<open>check_input_section\<close>\<close>

definition check_input_section :: "collaborators \<Rightarrow> cfg \<Rightarrow> bool \<Rightarrow> error + cfg" where
  "check_input_section ext user_cfg flag_estim =
     (let cfg = update_conf default_short_configuration_input user_cfg;
          configuration_schema =
            (if flag_estim
             then [(''input'', Schema (estim_input_configuration_schema (can_open ext)))]
             else [(''input'', Schema (input_configuration_schema (can_open ext)))])
      in
      then_do (validate configuration_schema cfg) (\<lambda>_.
      then_do (subscript2 cfg ''input'' ''img_left'') (\<lambda>img_left.
      then_do (subscript2 cfg ''input'' ''img_right'') (\<lambda>img_right.
      then_do (run_check (check_images ext img_left img_right)) (\<lambda>_.
      then_do (subscript2 cfg ''input'' ''disp_min_col'') (\<lambda>disp_min_col.
      then_do (subscript2 cfg ''input'' ''disp_max_col'') (\<lambda>disp_max_col.
      then_do (run_check (check_disparities ext disp_min_col disp_max_col)) (\<lambda>_.
      then_do (subscript2 cfg ''input'' ''disp_min_row'') (\<lambda>disp_min_row.
      then_do (subscript2 cfg ''input'' ''disp_max_row'') (\<lambda>disp_max_row.
      then_do (run_check (check_disparities ext disp_min_row disp_max_row)) (\<lambda>_.
      Inr cfg)))))))))))"

subsection \<open>\<^verbatim>\<open>check_pipeline_section\<close>\<close>

definition check_pipeline_section :: "cfg \<Rightarrow> machine \<Rightarrow> error + cfg" where
  "check_pipeline_section user_cfg pandora2d_machine =
     (let cfg = update_conf [] user_cfg in
      then_do (py_getitem (JDict cfg) ''pipeline'') (\<lambda>pipeline.
      then_do (pandora2d_machine pipeline) (\<lambda>pipeline_cfg.
      let cfg' = update_conf cfg pipeline_cfg in
      then_do (validate [(''pipeline'', IsDict)] cfg') (\<lambda>_.
      Inr cfg'))))"

subsection \<open>\<^verbatim>\<open>check_conf\<close>\<close>

text \<open>
  The second operand of the \<^verbatim>\<open>and\<close> in the test on \<^verbatim>\<open>nodata_right\<close> is evaluated
  only when the first is true.
\<close>

definition nodata_mismatch :: "cfg \<Rightarrow> cfg \<Rightarrow> error + bool" where
  "nodata_mismatch cfg_input cfg_pipeline =
     then_do (subscript2 cfg_input ''input'' ''nodata_right'') (\<lambda>nodata_right.
     if isinstance_float nodata_right
     then then_do (subscript3 cfg_pipeline ''pipeline'' ''matching_cost'' ''matching_cost_method'')
            (\<lambda>method. Inr (method \<in> set [JStr ''sad'', JStr ''ssd'']))
     else Inr False)"

text \<open>
  The test on the estimation step and the disparity bounds that opens \<^verbatim>\<open>check_conf\<close>:
  it yields \<^verbatim>\<open>flag_estim\<close>, or ends the run.  Both operands of \<^verbatim>\<open>xor\<close> are evaluated.
\<close>

definition exclusivity_gate :: "cfg \<Rightarrow> error + bool" where
  "exclusivity_gate user_cfg =
     then_do (py_getitem (JDict user_cfg) ''pipeline'') (\<lambda>pipeline.
     then_do (py_contains ''estimation'' pipeline) (\<lambda>flag_estim.
     then_do (py_getitem (JDict user_cfg) ''input'') (\<lambda>input.
     then_do (py_issubset disparity_keys input) (\<lambda>all_bounds.
     if \<not> xor_bool flag_estim all_bounds
     then Inl (SystemExit 1 exclusivity_message)
     else Inr flag_estim))))"

text \<open>
  \<^verbatim>\<open>check_conf\<close>, statement by statement: the test above, the pipeline section, the
  input section, the test on \<^verbatim>\<open>nodata_right\<close>, and the concatenation that is returned.
\<close>

definition check_conf :: "collaborators \<Rightarrow> cfg \<Rightarrow> machine \<Rightarrow> error + cfg" where
  "check_conf ext user_cfg pandora2d_machine =
     then_do (exclusivity_gate user_cfg) (\<lambda>flag_estim.
     then_do (check_pipeline_section (get_config_pipeline user_cfg) pandora2d_machine)
       (\<lambda>cfg_pipeline.
     then_do (check_input_section ext (get_config_input user_cfg) flag_estim)
       (\<lambda>cfg_input.
     then_do (nodata_mismatch cfg_input cfg_pipeline) (\<lambda>mismatch.
     if mismatch
     then Inl (SystemExit 1 nodata_message)
     else Inr (concat_conf [cfg_input, cfg_pipeline])))))"

subsection \<open>Collaborators and configurations for the examples\<close>

text \<open>
  A file system where every raster opens, image and disparity checks that pass, a state
  machine that accepts every pipeline and keeps it as it is, and one that refuses every
  pipeline.
\<close>

definition lenient :: collaborators where
  "lenient = \<lparr>can_open = (\<lambda>_. True), check_images = (\<lambda>_ _. None),
               check_disparities = (\<lambda>_ _. None)\<rparr>"

definition accepting_machine :: machine where
  "accepting_machine pipeline = Inr [(''pipeline'', pipeline)]"

definition refusing_machine :: machine where
  "refusing_machine pipeline = Inl StateMachineViolation"

text \<open>A user configuration from its input section and its pipeline section.\<close>

definition user_configuration :: "cfg \<Rightarrow> cfg \<Rightarrow> cfg" where
  "user_configuration input pipeline = [(''input'', JDict input), (''pipeline'', JDict pipeline)]"

definition sad_pipeline :: cfg where
  "sad_pipeline =
     [(''matching_cost'', JDict [(''matching_cost_method'', JStr ''sad''),
                                 (''window_size'', JInt 5)])]"

definition full_input :: "jvalue \<Rightarrow> cfg" where
  "full_input nodata_right =
     [(''img_left'', JStr ''left.tif''),
      (''img_right'', JStr ''right.tif''),
      (''nodata_right'', nodata_right),
      (''disp_min_col'', JInt (- 2)),
      (''disp_max_col'', JInt 2),
      (''disp_min_row'', JInt (- 2)),
      (''disp_max_row'', JInt 2)]"

definition short_user_input :: cfg where
  "short_user_input =
     [(''input'', JDict [(''img_left'', JStr ''left.tif''), (''nodata_right'', JInt 7)])]"

definition estimation_pipeline :: cfg where
  "estimation_pipeline = (''estimation'', JDict [(''estimation_method'', JStr ''phase_cross_correlation'')]) # sad_pipeline"

definition two_bounds_input :: cfg where
  "two_bounds_input =
     [(''img_left'', JStr ''left.tif''),
      (''img_right'', JStr ''right.tif''),
      (''disp_min_col'', JInt (- 2)),
      (''disp_max_col'', JInt 2)]"

definition images_only_input :: cfg where
  "images_only_input = [(''img_left'', JStr ''left.tif''), (''img_right'', JStr ''right.tif'')]"

text \<open>The inner dictionary of \<open>default_short_configuration_input\<close>.\<close>

definition default_input :: cfg where
  "default_input =
        [(''nodata_left'', JInt (- 9999)),
         (''nodata_right'', JInt (- 9999)),
         (''disp_min_col'', JFloat NaN),
         (''disp_max_col'', JFloat NaN),
         (''disp_min_row'', JFloat NaN),
         (''disp_max_row'', JFloat NaN)]"

definition mixed_user_cfg :: cfg where
  "mixed_user_cfg =
     [(''input'', JDict [(''img_left'', JStr ''left.tif''), (''nodata_right'', JInt 7)]),
      (''verbose'', JBool True)]"

definition mixed_default_cfg :: cfg where
  "mixed_default_cfg =
     [(''input'', JDict [(''nodata_left'', JInt (- 9999)), (''nodata_right'', JInt (- 9999))]),
      (''verbose'', JDict [(''level'', JInt 2)]),
      (''output'', JStr ''out'')]"

definition estimation_only_pipeline :: cfg where
  "estimation_only_pipeline =
     [(''estimation'', JDict [(''estimation_method'', JStr ''phase_cross_correlation'')])]"

definition estimation_input :: "jvalue \<Rightarrow> cfg" where
  "estimation_input nodata_right =
     [(''img_left'', JStr ''left.tif''),
      (''img_right'', JStr ''right.tif''),
      (''nodata_right'', nodata_right)]"

definition no_files :: collaborators where
  "no_files = \<lparr>can_open = (\<lambda>_. False), check_images = (\<lambda>_ _. None),
               check_disparities = (\<lambda>_ _. None)\<rparr>"

text \<open>
  A state machine that leaves a \<^verbatim>\<open>pipeline_cfg\<close> whose pipeline is not a mapping.
\<close>

definition scalar_machine :: machine where
  "scalar_machine pipeline = Inr [(''pipeline'', JInt 0)]"

definition bounds_only_input :: cfg where
  "bounds_only_input =
     [(''disp_min_col'', JInt (- 2)),
      (''disp_max_col'', JInt 2),
      (''disp_min_row'', JInt (- 2)),
      (''disp_max_row'', JInt 2)]"

text \<open>
  The merged input sections of \<open>full_input\<close> and of \<open>estimation_input\<close>: the defaults
  first, in their order, then the user's new keys.
\<close>

definition merged_full_input :: "jvalue \<Rightarrow> cfg" where
  "merged_full_input nodata_right =
     [(''nodata_left'', JInt (- 9999)),
      (''nodata_right'', nodata_right),
      (''disp_min_col'', JInt (- 2)),
      (''disp_max_col'', JInt 2),
      (''disp_min_row'', JInt (- 2)),
      (''disp_max_row'', JInt 2),
      (''img_left'', JStr ''left.tif''),
      (''img_right'', JStr ''right.tif'')]"

definition merged_full :: "jvalue \<Rightarrow> cfg" where
  "merged_full nodata_right = [(''input'', JDict (merged_full_input nodata_right))]"

definition merged_estimation :: "jvalue \<Rightarrow> cfg" where
  "merged_estimation nodata_right =
     [(''input'', JDict
        [(''nodata_left'', JInt (- 9999)),
         (''nodata_right'', nodata_right),
         (''disp_min_col'', JFloat NaN),
         (''disp_max_col'', JFloat NaN),
         (''disp_min_row'', JFloat NaN),
         (''disp_max_row'', JFloat NaN),
         (''img_left'', JStr ''left.tif''),
         (''img_right'', JStr ''right.tif'')])]"



lemmas schema_defs =
  input_configuration_schema_def estim_input_configuration_schema_def
  default_short_configuration_input_def rasterio_can_open_mandatory_def

lemmas example_defs =
  user_configuration_def full_input_def sad_pipeline_def estimation_pipeline_def
  two_bounds_input_def images_only_input_def disparity_keys_def

lemmas more_defs =
  estimation_only_pipeline_def estimation_input_def no_files_def scalar_machine_def
  bounds_only_input_def

lemmas merged_defs = merged_full_def merged_full_input_def merged_estimation_def

lemmas gate_defs = exclusivity_gate_def then_do_def xor_bool_def

lemmas run_defs =
  check_input_section_def check_pipeline_section_def validate_def subscript2_def subscript3_def
  run_check_def then_do_def get_config_input_def get_config_pipeline_def lenient_def
  accepting_machine_def refusing_machine_def


section \<open>Properties of the merge\<close>

text \<open>
  One step of \<open>update_conf\<close> is an assignment of the overlaid value; a lookup in the
  result is therefore decided by the user's entry for that key, if there is one.
\<close>

lemma update_conf_Cons:
  "update_conf d ((k, v) # us) = update_conf (AList.update k (overlay (map_of d k) v) d) us"
  by (simp add: overlay_def)

lemma map_of_update_conf_other:
  "k \<notin> fst ` set u \<Longrightarrow> map_of (update_conf d u) k = map_of d k"
proof (induction u arbitrary: d)
  case Nil
  show ?case by simp
next
  case (Cons kv us)
  obtain k0 v0 where kv: "kv = (k0, v0)" by (cases kv)
  from Cons.prems kv have ne: "k \<noteq> k0" and notin: "k \<notin> fst ` set us" by auto
  show ?case
    unfolding kv update_conf_Cons
    using Cons.IH [OF notin] ne by (simp add: update_conv')
qed

lemma map_of_update_conf_user:
  "distinct (map fst u) \<Longrightarrow> map_of u k = Some v \<Longrightarrow>
   map_of (update_conf d u) k = Some (overlay (map_of d k) v)"
proof (induction u arbitrary: d)
  case Nil
  then show ?case by simp
next
  case (Cons kv us)
  obtain k0 v0 where kv: "kv = (k0, v0)" by (cases kv)
  from Cons.prems(1) kv have dist: "distinct (map fst us)" and k0: "k0 \<notin> fst ` set us" by auto
  show ?case
  proof (cases "k = k0")
    case True
    with Cons.prems(2) kv have "v = v0" by simp
    with True k0 show ?thesis
      unfolding kv update_conf_Cons
      by (simp add: map_of_update_conf_other update_conv')
  next
    case False
    with Cons.prems(2) kv have "map_of us k = Some v" by simp
    from Cons.IH [OF dist this] False show ?thesis
      unfolding kv update_conf_Cons by (simp add: update_conv')
  qed
qed

lemma keys_update_conf:
  "fst ` set (update_conf d u) = fst ` set d \<union> fst ` set u"
proof (induction u arbitrary: d)
  case Nil
  show ?case by simp
next
  case (Cons kv us)
  obtain k0 v0 where kv: "kv = (k0, v0)" by (cases kv)
  show ?case unfolding kv update_conf_Cons
    by (auto simp: Cons.IH dom_update)
qed

lemma update_conf_absorb:
  "(\<And>k v. (k, v) \<in> set u \<Longrightarrow> map_of r k = Some (overlay (map_of r k) v)) \<Longrightarrow>
   update_conf r u = r"
proof (induction u)
  case Nil
  show ?case by simp
next
  case (Cons kv us)
  obtain k0 v0 where kv: "kv = (k0, v0)" by (cases kv)
  have "map_of r k0 = Some (overlay (map_of r k0) v0)"
    using Cons.prems [of k0 v0] kv by simp
  then have "AList.update k0 (overlay (map_of r k0) v0) r = r"
    by (rule update_triv)
  moreover have "update_conf r us = r"
    using Cons.IH Cons.prems by simp
  ultimately show ?case unfolding kv update_conf_Cons by simp
qed

lemma wf_value_entry:
  "wf_value (JDict u) \<Longrightarrow> (k, v) \<in> set u \<Longrightarrow> wf_value v"
  by (auto simp: list_all_iff)

lemma wf_value_lookup:
  "wf_value (JDict u) \<Longrightarrow> map_of u k = Some v \<Longrightarrow> wf_value v"
  by (auto simp: list_all_iff dest: map_of_SomeD)

lemma update_conf_self_aux:
  "wf_value w \<Longrightarrow> (\<forall>u. w = JDict u \<longrightarrow> update_conf u u = u)"
proof (induction w)
  case (JDict u)
  have "update_conf u u = u"
  proof (rule update_conf_absorb)
    fix k v assume kv: "(k, v) \<in> set u"
    from JDict.prems have dist: "distinct (map fst u)" by simp
    from dist kv have look: "map_of u k = Some v" by simp
    have wfv: "wf_value v" using JDict.prems kv by (rule wf_value_entry)
    have "overlay (Some v) v = v"
    proof (cases v)
      case (JDict u')
      have "update_conf u' u' = u'"
        using JDict.IH [of "(k, v)" v] kv wfv JDict by simp
      with JDict show ?thesis by (simp add: overlay_def)
    qed (simp_all add: overlay_def)
    with look show "map_of u k = Some (overlay (map_of u k) v)" by simp
  qed
  then show ?case by simp
qed simp_all

lemma update_conf_self: "wf_value (JDict u) \<Longrightarrow> update_conf u u = u"
  using update_conf_self_aux by blast

lemma update_conf_idem_aux:
  "wf_value w \<Longrightarrow> (\<forall>u d. w = JDict u \<longrightarrow> update_conf (update_conf d u) u = update_conf d u)"
proof (induction w)
  case (JDict u)
  have "update_conf (update_conf d u) u = update_conf d u" for d
  proof (rule update_conf_absorb)
    fix k v assume kv: "(k, v) \<in> set u"
    from JDict.prems have dist: "distinct (map fst u)" by simp
    from dist kv have look: "map_of u k = Some v" by simp
    have wfv: "wf_value v" using JDict.prems kv by (rule wf_value_entry)
    have res: "map_of (update_conf d u) k = Some (overlay (map_of d k) v)"
      using dist look by (rule map_of_update_conf_user)
    have "overlay (Some (overlay (map_of d k) v)) v = overlay (map_of d k) v"
    proof (cases v)
      case v: (JDict u')
      have ih: "update_conf (update_conf d' u') u' = update_conf d' u'" for d'
        using JDict.IH [of "(k, v)" v] kv wfv v by simp
      have self: "update_conf u' u' = u'"
        using wfv v update_conf_self by simp
      show ?thesis
        using v ih self by (simp add: overlay_def split: option.splits jvalue.splits)
    qed (simp_all add: overlay_def)
    with res show "map_of (update_conf d u) k
        = Some (overlay (map_of (update_conf d u) k) v)" by simp
  qed
  then show ?case by simp
qed simp_all

lemma lookup_path_update_conf:
  "wf_value (JDict U) \<Longrightarrow> lookup_path (JDict U) p = Some v \<Longrightarrow> is_leaf v \<Longrightarrow>
   lookup_path (JDict (update_conf D U)) p = Some v"
proof (induction p arbitrary: U D)
  case Nil
  then show ?case by auto
next
  case (Cons k ks)
  from Cons.prems(2) obtain w where w: "map_of U k = Some w" and rest: "lookup_path w ks = Some v"
    by (auto split: option.splits)
  from Cons.prems(1) have dist: "distinct (map fst U)" by simp
  have wfw: "wf_value w" using Cons.prems(1) w by (rule wf_value_lookup)
  have res: "map_of (update_conf D U) k = Some (overlay (map_of D k) w)"
    using dist w by (rule map_of_update_conf_user)
  have "lookup_path (overlay (map_of D k) w) ks = Some v"
  proof (cases w)
    case (JDict u)
    show ?thesis
    proof (cases "\<exists>d. map_of D k = Some (JDict d)")
      case True
      then obtain d where d: "map_of D k = Some (JDict d)" by blast
      have "lookup_path (JDict (update_conf d u)) ks = Some v"
        using Cons.IH [of u d] wfw rest Cons.prems(3) JDict by simp
      with d JDict show ?thesis by (simp add: overlay_def)
    next
      case False
      then have "overlay (map_of D k) w = w"
        using JDict by (auto simp: overlay_def split: option.splits jvalue.splits)
      with rest show ?thesis by simp
    qed
  qed (use rest in \<open>simp_all add: overlay_def\<close>)
  with res show ?case by simp
qed

text \<open>
  C5: \<open>update_conf D U\<close> drops no key of the user configuration \<open>U\<close>: every key of
  \<open>U\<close> is a key of the result.  Every value of the user that is not a mapping is found
  in the result under its key, at any depth of nesting, and is never replaced by a
  default.  A mapping of the user is found as it is when the default for its key is
  absent or not a mapping, and merged with the default mapping otherwise, which keeps
  its entries in the same way.  A key of \<open>D\<close> that \<open>U\<close> lacks keeps its default.
\<close>

theorem update_conf_keeps_user_and_defaults:
  assumes "wf_value (JDict U)"
  shows "(k \<in> fst ` set U \<longrightarrow> k \<in> fst ` set (update_conf D U))
       \<and> (map_of U k = Some v \<and> is_leaf v \<longrightarrow> map_of (update_conf D U) k = Some v)
       \<and> (map_of U k = Some v \<and> (\<forall>d. map_of D k \<noteq> Some (JDict d))
            \<longrightarrow> map_of (update_conf D U) k = Some v)
       \<and> (map_of U k = Some (JDict u) \<and> map_of D k = Some (JDict d)
            \<longrightarrow> map_of (update_conf D U) k = Some (JDict (update_conf d u)))
       \<and> (lookup_path (JDict U) p = Some v \<and> is_leaf v
            \<longrightarrow> lookup_path (JDict (update_conf D U)) p = Some v)
       \<and> (k \<notin> fst ` set U \<longrightarrow> map_of (update_conf D U) k = map_of D k)"
proof -
  from assms have dist: "distinct (map fst U)" by simp
  have user: "map_of (update_conf D U) k = Some (overlay (map_of D k) w)"
    if "map_of U k = Some w" for w
    using dist that by (rule map_of_update_conf_user)
  have a: "k \<in> fst ` set U \<longrightarrow> k \<in> fst ` set (update_conf D U)"
    by (simp add: keys_update_conf)
  have b: "map_of U k = Some v \<and> is_leaf v \<longrightarrow> map_of (update_conf D U) k = Some v"
    using user [of v] by (cases v) (auto simp: overlay_def)
  have c: "map_of U k = Some v \<and> (\<forall>d. map_of D k \<noteq> Some (JDict d))
            \<longrightarrow> map_of (update_conf D U) k = Some v"
    using user [of v] by (auto simp: overlay_def split: jvalue.splits option.splits)
  have d: "map_of U k = Some (JDict u) \<and> map_of D k = Some (JDict d)
            \<longrightarrow> map_of (update_conf D U) k = Some (JDict (update_conf d u))"
    using user [of "JDict u"] by (auto simp: overlay_def)
  have e: "lookup_path (JDict U) p = Some v \<and> is_leaf v
            \<longrightarrow> lookup_path (JDict (update_conf D U)) p = Some v"
    using lookup_path_update_conf [OF assms] by blast
  have f: "k \<notin> fst ` set U \<longrightarrow> map_of (update_conf D U) k = map_of D k"
    by (simp add: map_of_update_conf_other)
  from a b c d e f show ?thesis by blast
qed

theorem update_conf_keeps_user_and_defaults_witness:
  "wf_value (JDict mixed_user_cfg)
   \<and> ''input'' \<in> fst ` set (update_conf mixed_default_cfg mixed_user_cfg)
   \<and> map_of (update_conf mixed_default_cfg mixed_user_cfg) ''verbose'' = Some (JBool True)
   \<and> map_of (update_conf [(''output'', JStr ''out'')] mixed_user_cfg) ''input''
       = Some (JDict [(''img_left'', JStr ''left.tif''), (''nodata_right'', JInt 7)])
   \<and> map_of (update_conf mixed_default_cfg mixed_user_cfg) ''input''
       = Some (JDict [(''nodata_left'', JInt (- 9999)), (''nodata_right'', JInt 7),
                      (''img_left'', JStr ''left.tif'')])
   \<and> lookup_path (JDict (update_conf mixed_default_cfg mixed_user_cfg)) [''input'', ''nodata_right'']
       = Some (JInt 7)
   \<and> map_of (update_conf mixed_default_cfg mixed_user_cfg) ''output'' = Some (JStr ''out'')"
proof -
  have wf: "wf_value (JDict mixed_user_cfg)"
    by (simp add: mixed_user_cfg_def)
  note inst = update_conf_keeps_user_and_defaults [OF wf]
  from wf
    inst [where k = "''input''" and D = mixed_default_cfg
         and u = "[(''img_left'', JStr ''left.tif''), (''nodata_right'', JInt 7)]"
         and d = "[(''nodata_left'', JInt (- 9999)), (''nodata_right'', JInt (- 9999))]"
         and p = "[''input'', ''nodata_right'']" and v = "JInt 7"]
    inst [where k = "''verbose''" and D = mixed_default_cfg and v = "JBool True"]
    inst [where k = "''input''" and D = "[(''output'', JStr ''out'')]"
         and v = "JDict [(''img_left'', JStr ''left.tif''), (''nodata_right'', JInt 7)]"]
    inst [where k = "''output''" and D = mixed_default_cfg]
  show ?thesis
    by (simp add: mixed_user_cfg_def mixed_default_cfg_def)
qed


text \<open>
  C6: merging is idempotent in the user configuration: merging the user configuration
  \<open>U\<close> once more into \<open>update_conf D U\<close> changes nothing, for all defaults \<open>D\<close> and all
  user dictionaries \<open>U\<close>.  The equality is that of the association lists, position by
  position, which is finer than the equality of Python dictionaries.
\<close>

theorem update_conf_idempotent:
  assumes "wf_value (JDict U)"
  shows "update_conf (update_conf D U) U = update_conf D U"
  using assms update_conf_idem_aux by blast

theorem update_conf_idempotent_witness:
  "wf_value (JDict short_user_input)
   \<and> update_conf (update_conf default_short_configuration_input short_user_input) short_user_input
     = update_conf default_short_configuration_input short_user_input"
proof -
  have wf: "wf_value (JDict short_user_input)"
    by (simp add: short_user_input_def)
  from wf update_conf_idempotent [OF wf, of default_short_configuration_input]
  show ?thesis by simp
qed


section \<open>Sequencing and the exclusivity test\<close>

lemma then_do_Inl: "then_do (Inl e) f = Inl e"
  by (simp add: then_do_def)

lemma then_do_Inr: "then_do (Inr x) f = f x"
  by (simp add: then_do_def)

lemma then_do_eq_Inr:
  "then_do r f = Inr y \<longleftrightarrow> (\<exists>x. r = Inr x \<and> f x = Inr y)"
  by (cases r) (simp_all add: then_do_def)

lemma all_bounds_iff:
  "list_all (\<lambda>k. k \<in> fst ` set d) ks \<longleftrightarrow> set ks \<subseteq> fst ` set d"
  by (auto simp: list_all_iff)

lemma exclusivity_gate_dicts:
  assumes "map_of user_cfg ''pipeline'' = Some (JDict pipeline)"
      and "map_of user_cfg ''input'' = Some (JDict input)"
  shows "exclusivity_gate user_cfg =
           (if (''estimation'' \<in> fst ` set pipeline) = (set disparity_keys \<subseteq> fst ` set input)
            then Inl (SystemExit 1 exclusivity_message)
            else Inr (''estimation'' \<in> fst ` set pipeline))"
  using assms
  by (simp add: exclusivity_gate_def then_do_Inr xor_bool_def all_bounds_iff)

lemma exclusivity_gate_no_pipeline:
  "map_of user_cfg ''pipeline'' = None \<Longrightarrow> exclusivity_gate user_cfg = Inl (KeyError ''pipeline'')"
  by (simp add: exclusivity_gate_def then_do_Inl)

lemma exclusivity_gate_no_input:
  "map_of user_cfg ''pipeline'' = Some (JDict pipeline) \<Longrightarrow> map_of user_cfg ''input'' = None \<Longrightarrow>
   exclusivity_gate user_cfg = Inl (KeyError ''input'')"
  by (simp add: exclusivity_gate_def then_do_Inl then_do_Inr)

lemma check_conf_gate_fails:
  "exclusivity_gate user_cfg = Inl e \<Longrightarrow> check_conf ext user_cfg m = Inl e"
  by (simp add: check_conf_def then_do_Inl)

text \<open>
  C1: \<^verbatim>\<open>check_conf\<close> goes on to the pipeline and the input only when exactly one of
  ``the pipeline section has an \<^verbatim>\<open>estimation\<close> step'' and ``the input section has all
  four disparity bounds'' holds.  With both or neither, the run ends with status 1 and
  the message on disparities and estimation, whatever the state machine and the
  collaborators would have answered.  A configuration that lacks one of the two
  sections ends in the \<^verbatim>\<open>KeyError\<close> of the subscript, before any validation as well.
\<close>

theorem check_conf_exclusivity:
  "(map_of user_cfg ''pipeline'' = Some (JDict pipeline)
      \<and> map_of user_cfg ''input'' = Some (JDict input)
      \<and> ((''estimation'' \<in> fst ` set pipeline) = (set disparity_keys \<subseteq> fst ` set input))
    \<longrightarrow> check_conf ext user_cfg pandora2d_machine = Inl (SystemExit 1 exclusivity_message))
   \<and> (map_of user_cfg ''pipeline'' = None
    \<longrightarrow> check_conf ext user_cfg pandora2d_machine = Inl (KeyError ''pipeline''))
   \<and> (map_of user_cfg ''pipeline'' = Some (JDict pipeline) \<and> map_of user_cfg ''input'' = None
    \<longrightarrow> check_conf ext user_cfg pandora2d_machine = Inl (KeyError ''input''))"
  by (simp add: check_conf_gate_fails exclusivity_gate_dicts exclusivity_gate_no_pipeline
      exclusivity_gate_no_input)

theorem check_conf_exclusivity_witness:
  "check_conf lenient (user_configuration (full_input (JInt 9999)) estimation_pipeline)
       refusing_machine = Inl (SystemExit 1 exclusivity_message)
   \<and> check_conf lenient (user_configuration [] sad_pipeline)
       refusing_machine = Inl (SystemExit 1 exclusivity_message)
   \<and> check_conf lenient [(''input'', JDict (full_input (JInt 9999)))] accepting_machine
       = Inl (KeyError ''pipeline'')
   \<and> check_conf lenient [(''pipeline'', JDict sad_pipeline)] accepting_machine
       = Inl (KeyError ''input'')"
  using
    check_conf_exclusivity [where user_cfg = "user_configuration (full_input (JInt 9999)) estimation_pipeline"
      and pipeline = estimation_pipeline and input = "full_input (JInt 9999)"
      and ext = lenient and pandora2d_machine = refusing_machine]
    check_conf_exclusivity [where user_cfg = "user_configuration [] sad_pipeline"
      and pipeline = sad_pipeline and input = "[]"
      and ext = lenient and pandora2d_machine = refusing_machine]
    check_conf_exclusivity [where user_cfg = "[(''input'', JDict (full_input (JInt 9999)))]"
      and ext = lenient and pandora2d_machine = accepting_machine]
    check_conf_exclusivity [where user_cfg = "[(''pipeline'', JDict sad_pipeline)]"
      and pipeline = sad_pipeline
      and ext = lenient and pandora2d_machine = accepting_machine]
  by (simp add: example_defs)


section \<open>Properties of the schema checker\<close>

lemma violations_empty_iff:
  "violations p c ov = [] \<longleftrightarrow> (\<exists>v. ov = Some v \<and> conforms c v)"
  by (induction p c ov rule: violations.induct)
     (auto simp: list_all_iff split: option.splits)

lemma violations_entry:
  "(k, c) \<in> set s \<Longrightarrow>
   set (violations (p @ [k]) c (map_of d k)) \<subseteq> set (violations p (Schema s) (Some (JDict d)))"
  by force

lemma report_Inr_iff:
  "(case vs of [] \<Rightarrow> Inr () | v # vs' \<Rightarrow> Inl (SchemaViolation (v # vs'))) = Inr () \<longleftrightarrow> vs = []"
  by (cases vs) simp_all

lemma validate_Inr_iff:
  "validate schema c = Inr () \<longleftrightarrow> conforms (Schema schema) (JDict c)"
proof -
  let ?vs = "violations [] (Schema schema) (Some (JDict c))"
  have eq: "?vs = [] \<longleftrightarrow> conforms (Schema schema) (JDict c)"
    using violations_empty_iff [of "[]" "Schema schema" "Some (JDict c)"] by blast
  have "validate schema c = Inr () \<longleftrightarrow> ?vs = []"
    unfolding validate_def by (rule report_Inr_iff)
  with eq show ?thesis by blast
qed

lemma validate_Inl:
  "validate schema c = Inl e \<Longrightarrow>
   e = SchemaViolation (violations [] (Schema schema) (Some (JDict c)))"
  by (auto simp: validate_def split: list.splits)

lemma validate_violation:
  "v \<in> set (violations [] (Schema schema) (Some (JDict c))) \<Longrightarrow>
   validate schema c = Inl (SchemaViolation (violations [] (Schema schema) (Some (JDict c))))"
  by (cases "violations [] (Schema schema) (Some (JDict c))") (auto simp: validate_def)

section \<open>The input section\<close>

text \<open>The schema that \<open>check_input_section\<close> picks.\<close>

lemma check_input_section_Inr:
  assumes "check_input_section ext user_cfg flag_estim = Inr cfg"
  shows "cfg = update_conf default_short_configuration_input user_cfg
       \<and> conforms (Schema [(''input'', Schema ((if flag_estim then estim_input_configuration_schema
              else input_configuration_schema) (can_open ext)))]) (JDict cfg)"
proof -
  let ?c = "update_conf default_short_configuration_input user_cfg"
  let ?s = "[(''input'', Schema ((if flag_estim then estim_input_configuration_schema
              else input_configuration_schema) (can_open ext)))]"
  from assms have "validate ?s ?c = Inr ()" and "cfg = ?c"
    by (auto simp: check_input_section_def Let_def then_do_eq_Inr split: if_splits)
  then show ?thesis by (simp add: validate_Inr_iff)
qed

lemma check_input_section_violation:
  assumes "v \<in> set (violations [] (Schema [(''input'', Schema ((if flag_estim then estim_input_configuration_schema
              else input_configuration_schema) (can_open ext)))])
              (Some (JDict (update_conf default_short_configuration_input user_cfg))))"
  shows "\<exists>vs. check_input_section ext user_cfg flag_estim = Inl (SchemaViolation vs) \<and> v \<in> set vs"
proof -
  let ?c = "update_conf default_short_configuration_input user_cfg"
  let ?s = "[(''input'', Schema ((if flag_estim then estim_input_configuration_schema
              else input_configuration_schema) (can_open ext)))]"
  from assms have "validate ?s ?c = Inl (SchemaViolation (violations [] (Schema ?s) (Some (JDict ?c))))"
    by (rule validate_violation)
  then have "check_input_section ext user_cfg flag_estim
      = Inl (SchemaViolation (violations [] (Schema ?s) (Some (JDict ?c))))"
    by (simp add: check_input_section_def Let_def then_do_Inl split: if_splits)
  with assms show ?thesis by blast
qed

text \<open>A field of the merged input section that does not meet its constraint is reported.\<close>

lemma input_field_violation:
  assumes sch: "(k, c) \<in> set ((if flag_estim then estim_input_configuration_schema
              else input_configuration_schema) (can_open ext))"
      and inp: "map_of (update_conf default_short_configuration_input user_cfg) ''input'' = Some (JDict input)"
      and val: "map_of input k = Some x" and bad: "\<not> conforms c x" and flat: "\<forall>s. c \<noteq> Schema s"
  shows "\<exists>vs. check_input_section ext user_cfg flag_estim = Inl (SchemaViolation vs)
              \<and> Unmet [''input'', k] \<in> set vs"
proof -
  let ?S = "(if flag_estim then estim_input_configuration_schema
              else input_configuration_schema) (can_open ext)"
  have "violations [''input'', k] c (Some x) = [Unmet [''input'', k]]"
    using bad flat by (cases c; cases x) simp_all
  then have "Unmet [''input'', k] \<in> set (violations ([''input''] @ [k]) c (map_of input k))"
    using val by simp
  with violations_entry [OF sch, of "[''input'']" input]
  have "Unmet [''input'', k] \<in> set (violations [''input''] (Schema ?S) (Some (JDict input)))"
    by blast
  then have "Unmet [''input'', k] \<in> set (violations [] (Schema [(''input'', Schema ?S)])
      (Some (JDict (update_conf default_short_configuration_input user_cfg))))"
    using inp by simp
  then show ?thesis by (rule check_input_section_violation)
qed

text \<open>The merged input section, for a user configuration that has an input dictionary.\<close>

lemma merged_input:
  "update_conf default_short_configuration_input [(''input'', JDict input)]
   = [(''input'', JDict (update_conf default_input input))]"
  by (simp add: default_short_configuration_input_def default_input_def)

lemma merged_missing_bound:
  "k \<in> set disparity_keys \<Longrightarrow> k \<notin> fst ` set input \<Longrightarrow>
   map_of (update_conf default_input input) k = Some (JFloat NaN)"
  by (auto simp: map_of_update_conf_other default_input_def disparity_keys_def)


lemma disparity_key_standard:
  "k \<in> set disparity_keys \<Longrightarrow> (k, IsInt) \<in> set (input_configuration_schema opens)"
  by (auto simp: disparity_keys_def input_configuration_schema_def)

lemma disparity_key_estimation:
  "k \<in> set disparity_keys \<Longrightarrow> (k, Pred np_isnan) \<in> set (estim_input_configuration_schema opens)"
  by (auto simp: disparity_keys_def estim_input_configuration_schema_def)

lemma get_config_input_dict:
  "map_of user_cfg ''input'' = Some v \<Longrightarrow> get_config_input user_cfg = [(''input'', v)]"
  by (simp add: get_config_input_def)

lemma get_config_pipeline_dict:
  "map_of user_cfg ''pipeline'' = Some v \<Longrightarrow> get_config_pipeline user_cfg = [(''pipeline'', v)]"
  by (simp add: get_config_pipeline_def)

text \<open>
  C3: with no \<^verbatim>\<open>estimation\<close> step and one of the four disparity bounds missing from
  the input section, \<^verbatim>\<open>issubset\<close> is false (it asks for all four keys), so neither
  side of the XOR holds: \<^verbatim>\<open>check_conf\<close> ends the run at this test, with status 1 and the
  message on disparities and estimation, and validates nothing.  Checked on its own
  without the estimation flag, such an input section does fail the standard schema:
  the missing bound has taken the default NaN, which is not an integer.
\<close>

theorem check_conf_partial_bounds:
  assumes pipeline: "map_of user_cfg ''pipeline'' = Some (JDict pipeline)"
      and input: "map_of user_cfg ''input'' = Some (JDict input)"
      and no_estimation: "''estimation'' \<notin> fst ` set pipeline"
      and bound: "k \<in> set disparity_keys"
      and missing: "k \<notin> fst ` set input"
  shows "check_conf ext user_cfg pandora2d_machine = Inl (SystemExit 1 exclusivity_message)
       \<and> (\<exists>vs. check_input_section ext (get_config_input user_cfg) False = Inl (SchemaViolation vs)
               \<and> Unmet [''input'', k] \<in> set vs)"
proof -
  from bound missing have "\<not> set disparity_keys \<subseteq> fst ` set input" by blast
  with no_estimation have "exclusivity_gate user_cfg = Inl (SystemExit 1 exclusivity_message)"
    by (simp add: exclusivity_gate_dicts [OF pipeline input])
  then have gate: "check_conf ext user_cfg pandora2d_machine = Inl (SystemExit 1 exclusivity_message)"
    by (rule check_conf_gate_fails)
  have merged: "map_of (update_conf default_short_configuration_input (get_config_input user_cfg)) ''input''
      = Some (JDict (update_conf default_input input))"
    by (simp only: get_config_input_dict [OF input] merged_input) simp
  have nan: "map_of (update_conf default_input input) k = Some (JFloat NaN)"
    using bound missing by (rule merged_missing_bound)
  have "\<exists>vs. check_input_section ext (get_config_input user_cfg) False = Inl (SchemaViolation vs)
               \<and> Unmet [''input'', k] \<in> set vs"
  proof (rule input_field_violation [where c = IsInt and x = "JFloat NaN"
        and input = "update_conf default_input input"])
    show "(k, IsInt) \<in> set ((if False then estim_input_configuration_schema
              else input_configuration_schema) (can_open ext))"
      using bound by (simp add: disparity_key_standard)
  qed (use merged nan in simp_all)
  with gate show ?thesis by blast
qed

theorem check_conf_partial_bounds_witness:
  "check_conf lenient (user_configuration two_bounds_input sad_pipeline) refusing_machine
     = Inl (SystemExit 1 exclusivity_message)
   \<and> check_input_section lenient
       (get_config_input (user_configuration two_bounds_input sad_pipeline)) False
     = Inl (SchemaViolation [Unmet [''input'', ''disp_min_row''], Unmet [''input'', ''disp_max_row'']])"
proof -
  have "check_conf lenient (user_configuration two_bounds_input sad_pipeline) refusing_machine
     = Inl (SystemExit 1 exclusivity_message)"
    using check_conf_partial_bounds [where user_cfg = "user_configuration two_bounds_input sad_pipeline"
      and pipeline = sad_pipeline and input = two_bounds_input and k = "''disp_min_row''"
      and ext = lenient and pandora2d_machine = refusing_machine]
    by (simp add: example_defs)
  moreover have "check_input_section lenient
       (get_config_input (user_configuration two_bounds_input sad_pipeline)) False
     = Inl (SchemaViolation [Unmet [''input'', ''disp_min_row''], Unmet [''input'', ''disp_max_row'']])"
    by (simp add: run_defs schema_defs example_defs)
  ultimately show ?thesis by simp
qed


text \<open>
  Two of the four bounds and no estimation step: the run ends at the XOR test, not in the
  schema checker.
\<close>

theorem partial_bounds_counterexample:
  "check_conf lenient (user_configuration two_bounds_input sad_pipeline) accepting_machine
   = Inl (SystemExit 1 exclusivity_message)"
  by (simp add: check_conf_def exclusivity_gate_def then_do_def xor_bool_def example_defs)


section \<open>The stages of check_conf\<close>

lemma check_conf_pipeline_fails:
  "exclusivity_gate user_cfg = Inr flag_estim \<Longrightarrow>
   check_pipeline_section (get_config_pipeline user_cfg) m = Inl e \<Longrightarrow>
   check_conf ext user_cfg m = Inl e"
  by (simp add: check_conf_def then_do_Inl then_do_Inr)

lemma check_conf_input_fails:
  "exclusivity_gate user_cfg = Inr flag_estim \<Longrightarrow>
   check_pipeline_section (get_config_pipeline user_cfg) m = Inr cfg_pipeline \<Longrightarrow>
   check_input_section ext (get_config_input user_cfg) flag_estim = Inl e \<Longrightarrow>
   check_conf ext user_cfg m = Inl e"
  by (simp add: check_conf_def then_do_Inl then_do_Inr)

lemma check_conf_sections_pass:
  "exclusivity_gate user_cfg = Inr flag_estim \<Longrightarrow>
   check_pipeline_section (get_config_pipeline user_cfg) m = Inr cfg_pipeline \<Longrightarrow>
   check_input_section ext (get_config_input user_cfg) flag_estim = Inr cfg_input \<Longrightarrow>
   check_conf ext user_cfg m =
     then_do (nodata_mismatch cfg_input cfg_pipeline) (\<lambda>mismatch.
       if mismatch then Inl (SystemExit 1 nodata_message)
       else Inr (concat_conf [cfg_input, cfg_pipeline]))"
  by (simp add: check_conf_def then_do_Inr)

lemma nodata_mismatch_not_float:
  "subscript2 cfg_input ''input'' ''nodata_right'' = Inr v \<Longrightarrow> \<not> isinstance_float v \<Longrightarrow>
   nodata_mismatch cfg_input cfg_pipeline = Inr False"
  by (simp add: nodata_mismatch_def then_do_Inr)

lemma nodata_mismatch_float:
  "subscript2 cfg_input ''input'' ''nodata_right'' = Inr (JFloat f) \<Longrightarrow>
   nodata_mismatch cfg_input cfg_pipeline =
     then_do (subscript3 cfg_pipeline ''pipeline'' ''matching_cost'' ''matching_cost_method'')
       (\<lambda>method. Inr (method \<in> set [JStr ''sad'', JStr ''ssd'']))"
  by (simp add: nodata_mismatch_def then_do_Inr)

lemma conforms_schema_entry:
  "conforms (Schema s) v \<Longrightarrow> (k, c) \<in> set s \<Longrightarrow>
   \<exists>d x. v = JDict d \<and> map_of d k = Some x \<and> conforms c x"
  by (cases v) (auto simp: list_all_iff split: option.splits)

lemma check_input_section_field:
  assumes ok: "check_input_section ext user_cfg flag_estim = Inr cfg"
      and sch: "(k, c) \<in> set ((if flag_estim then estim_input_configuration_schema
                    else input_configuration_schema) (can_open ext))"
  shows "\<exists>input x. map_of cfg ''input'' = Some (JDict input) \<and> map_of input k = Some x \<and> conforms c x"
proof -
  let ?S = "(if flag_estim then estim_input_configuration_schema
                    else input_configuration_schema) (can_open ext)"
  from check_input_section_Inr [OF ok]
  have "conforms (Schema [(''input'', Schema ?S)]) (JDict cfg)" by blast
  from conforms_schema_entry [OF this, of "''input''" "Schema ?S"]
  obtain x where x: "map_of cfg ''input'' = Some x" and cx: "conforms (Schema ?S) x"
    by auto
  from conforms_schema_entry [OF cx sch] x show ?thesis by blast
qed

lemma np_isnan_iff: "np_isnan v \<longleftrightarrow> v = JFloat NaN"
  by (cases v) auto

lemma conforms_IsInt_iff: "conforms IsInt v \<longleftrightarrow> (\<exists>n. v = JInt n)"
  by (cases v) auto

lemma conforms_nodata_iff:
  "conforms (Or [IsInt, Pred np_isnan, Pred np_isinf]) v \<longleftrightarrow>
   (\<exists>n. v = JInt n) \<or> v = JFloat NaN \<or> v = JFloat PosInf \<or> v = JFloat NegInf"
  by (cases v) auto

lemma nodata_key_schema:
  "(''nodata_right'', Or [IsInt, Pred np_isnan, Pred np_isinf])
     \<in> set ((if flag_estim then estim_input_configuration_schema
                    else input_configuration_schema) opens)"
  by (simp add: estim_input_configuration_schema_def input_configuration_schema_def)

lemma check_input_section_nodata:
  assumes "check_input_section ext user_cfg flag_estim = Inr cfg"
  shows "\<exists>v. subscript2 cfg ''input'' ''nodata_right'' = Inr v
           \<and> ((\<exists>n. v = JInt n) \<or> v = JFloat NaN \<or> v = JFloat PosInf \<or> v = JFloat NegInf)"
proof -
  from check_input_section_field [OF assms nodata_key_schema]
  obtain input x where "map_of cfg ''input'' = Some (JDict input)" "map_of input ''nodata_right'' = Some x"
    "conforms (Or [IsInt, Pred np_isnan, Pred np_isinf]) x" by blast
  then show ?thesis
    by (simp only: conforms_nodata_iff) (simp add: subscript2_def then_do_Inr)
qed

text \<open>
  C4: \<^verbatim>\<open>check_input_section\<close> validates against the estimation variant of the schema
  when \<^verbatim>\<open>flag_estim\<close> is true, and against the standard one otherwise.  An input
  section that it returns has NaN in each of the four disparity bounds in the first
  case and an integer in each in the second; a merged input section with any other
  value in one of them is refused with a schema violation that names the bound.
\<close>

theorem check_input_section_disparity_schema:
  assumes "k \<in> set disparity_keys"
  shows "(check_input_section ext user_cfg flag_estim = Inr cfg \<longrightarrow>
            (\<exists>input. map_of cfg ''input'' = Some (JDict input)
               \<and> (if flag_estim then map_of input k = Some (JFloat NaN)
                   else (\<exists>n. map_of input k = Some (JInt n)))))
       \<and> (map_of (update_conf default_short_configuration_input user_cfg) ''input'' = Some (JDict merged)
            \<and> map_of merged k = Some x
            \<and> \<not> (if flag_estim then x = JFloat NaN else (\<exists>n. x = JInt n)) \<longrightarrow>
            (\<exists>vs. check_input_section ext user_cfg flag_estim = Inl (SchemaViolation vs)
               \<and> Unmet [''input'', k] \<in> set vs))"
proof (intro conjI impI)
  assume ok: "check_input_section ext user_cfg flag_estim = Inr cfg"
  show "\<exists>input. map_of cfg ''input'' = Some (JDict input)
               \<and> (if flag_estim then map_of input k = Some (JFloat NaN)
                   else (\<exists>n. map_of input k = Some (JInt n)))"
  proof (cases flag_estim)
    case True
    with assms have "(k, Pred np_isnan) \<in> set ((if flag_estim then estim_input_configuration_schema
                    else input_configuration_schema) (can_open ext))"
      by (simp add: disparity_key_estimation)
    from check_input_section_field [OF ok this]
    obtain input y where "map_of cfg ''input'' = Some (JDict input)" "map_of input k = Some y"
      "conforms (Pred np_isnan) y" by blast
    moreover from this have "y = JFloat NaN" by (simp add: np_isnan_iff)
    ultimately show ?thesis using True by auto
  next
    case False
    with assms have "(k, IsInt) \<in> set ((if flag_estim then estim_input_configuration_schema
                    else input_configuration_schema) (can_open ext))"
      by (simp add: disparity_key_standard)
    from check_input_section_field [OF ok this]
    obtain input y where "map_of cfg ''input'' = Some (JDict input)" "map_of input k = Some y"
      "conforms IsInt y" by blast
    moreover from this obtain n where "y = JInt n" by (simp only: conforms_IsInt_iff) blast
    ultimately show ?thesis using False by auto
  qed
next
  assume bad: "map_of (update_conf default_short_configuration_input user_cfg) ''input'' = Some (JDict merged)
            \<and> map_of merged k = Some x
            \<and> \<not> (if flag_estim then x = JFloat NaN else (\<exists>n. x = JInt n))"
  show "\<exists>vs. check_input_section ext user_cfg flag_estim = Inl (SchemaViolation vs)
               \<and> Unmet [''input'', k] \<in> set vs"
  proof (cases flag_estim)
    case True
    show ?thesis
    proof (rule input_field_violation [where c = "Pred np_isnan" and x = x and input = merged])
      show "(k, Pred np_isnan) \<in> set ((if flag_estim then estim_input_configuration_schema
                    else input_configuration_schema) (can_open ext))"
        using assms True by (simp add: disparity_key_estimation)
      show "\<not> conforms (Pred np_isnan) x" using bad True by (simp add: np_isnan_iff)
    qed (use bad in simp_all)
  next
    case False
    show ?thesis
    proof (rule input_field_violation [where c = IsInt and x = x and input = merged])
      show "(k, IsInt) \<in> set ((if flag_estim then estim_input_configuration_schema
                    else input_configuration_schema) (can_open ext))"
        using assms False by (simp add: disparity_key_standard)
      show "\<not> conforms IsInt x" using bad False by (simp only: conforms_IsInt_iff) simp
    qed (use bad in simp_all)
  qed
qed


theorem check_input_section_disparity_schema_witness:
  "''disp_min_col'' \<in> set disparity_keys
   \<and> (\<exists>input. check_input_section lenient [(''input'', JDict (full_input (JInt 9999)))] False
                = Inr [(''input'', JDict input)]
              \<and> map_of input ''disp_min_col'' = Some (JInt (- 2)))
   \<and> (\<exists>input. check_input_section lenient [(''input'', JDict images_only_input)] True
                = Inr [(''input'', JDict input)]
              \<and> map_of input ''disp_min_col'' = Some (JFloat NaN))
   \<and> (\<exists>vs. check_input_section lenient [(''input'', JDict (full_input (JInt 9999)))] True
                = Inl (SchemaViolation vs)
              \<and> Unmet [''input'', ''disp_min_col''] \<in> set vs)
   \<and> (\<exists>vs. check_input_section lenient [(''input'', JDict images_only_input)] False
                = Inl (SchemaViolation vs)
              \<and> Unmet [''input'', ''disp_min_col''] \<in> set vs)"
proof -
  have key: "''disp_min_col'' \<in> set disparity_keys"
    by (simp add: disparity_keys_def)
  have full: "check_input_section lenient [(''input'', JDict (full_input (JInt 9999)))] False
      = Inr (update_conf default_short_configuration_input [(''input'', JDict (full_input (JInt 9999)))])"
    by (simp add: run_defs schema_defs example_defs)
  have none: "check_input_section lenient [(''input'', JDict images_only_input)] True
      = Inr (update_conf default_short_configuration_input [(''input'', JDict images_only_input)])"
    by (simp add: run_defs schema_defs example_defs)
  note inst = check_input_section_disparity_schema [OF key, of lenient]
  have a: "\<exists>input. check_input_section lenient [(''input'', JDict (full_input (JInt 9999)))] False
                = Inr [(''input'', JDict input)]
              \<and> map_of input ''disp_min_col'' = Some (JInt (- 2))"
    using inst [THEN conjunct1, rule_format, OF full] full
    by (simp add: schema_defs example_defs)
  have b: "\<exists>input. check_input_section lenient [(''input'', JDict images_only_input)] True
                = Inr [(''input'', JDict input)]
              \<and> map_of input ''disp_min_col'' = Some (JFloat NaN)"
    using inst [THEN conjunct1, rule_format, OF none] none
    by (simp add: schema_defs images_only_input_def)
  have c: "\<exists>vs. check_input_section lenient [(''input'', JDict (full_input (JInt 9999)))] True
                = Inl (SchemaViolation vs)
              \<and> Unmet [''input'', ''disp_min_col''] \<in> set vs"
    by (rule inst [THEN conjunct2, rule_format, where x = "JInt (- 2)"
          and merged = "update_conf default_input (full_input (JInt 9999))"])
       (simp add: schema_defs default_input_def example_defs)
  have d: "\<exists>vs. check_input_section lenient [(''input'', JDict images_only_input)] False
                = Inl (SchemaViolation vs)
              \<and> Unmet [''input'', ''disp_min_col''] \<in> set vs"
    by (rule inst [THEN conjunct2, rule_format, where x = "JFloat NaN"
          and merged = "update_conf default_input images_only_input"])
       (simp add: schema_defs default_input_def images_only_input_def)
  from key a b c d show ?thesis by blast
qed


section \<open>Runs of the examples\<close>

lemma gate_standard:
  "exclusivity_gate (user_configuration (full_input v) sad_pipeline) = Inr False"
  by (simp add: gate_defs example_defs)

lemma gate_estimation:
  "exclusivity_gate (user_configuration (estimation_input v) estimation_only_pipeline) = Inr True"
  by (simp add: gate_defs example_defs more_defs)

lemma pipeline_standard:
  "check_pipeline_section (get_config_pipeline (user_configuration i sad_pipeline)) accepting_machine
   = Inr [(''pipeline'', JDict sad_pipeline)]"
  by (simp add: run_defs example_defs)

lemma pipeline_estimation:
  "check_pipeline_section (get_config_pipeline (user_configuration i estimation_only_pipeline)) accepting_machine
   = Inr [(''pipeline'', JDict estimation_only_pipeline)]"
  by (simp add: run_defs example_defs more_defs)

lemma pipeline_refused:
  "check_pipeline_section (get_config_pipeline (user_configuration i sad_pipeline)) refusing_machine
   = Inl StateMachineViolation"
  by (simp add: run_defs example_defs)

lemma merge_full:
  "update_conf default_short_configuration_input
     (get_config_input (user_configuration (full_input v) p)) = merged_full v"
  by (cases v) (simp_all add: run_defs schema_defs example_defs merged_defs)

lemma merge_estimation:
  "update_conf default_short_configuration_input
     (get_config_input (user_configuration (estimation_input v) p)) = merged_estimation v"
  by (cases v) (simp_all add: run_defs schema_defs example_defs more_defs merged_defs)

lemma input_full_int:
  "check_input_section lenient (get_config_input (user_configuration (full_input (JInt n)) p)) False
   = Inr (merged_full (JInt n))"
  by (simp add: run_defs schema_defs example_defs merged_defs)

lemma input_full_nan:
  "check_input_section lenient (get_config_input (user_configuration (full_input (JFloat NaN)) p)) False
   = Inr (merged_full (JFloat NaN))"
  by (simp add: run_defs schema_defs example_defs merged_defs)

lemma input_estimation_int:
  "check_input_section lenient (get_config_input (user_configuration (estimation_input (JInt n)) p)) True
   = Inr (merged_estimation (JInt n))"
  by (simp add: run_defs schema_defs example_defs more_defs merged_defs)

lemma input_estimation_inf:
  "check_input_section lenient (get_config_input (user_configuration (estimation_input (JFloat PosInf)) p)) True
   = Inr (merged_estimation (JFloat PosInf))"
  by (simp add: run_defs schema_defs example_defs more_defs merged_defs)


lemma mismatch_full_int:
  "nodata_mismatch (merged_full (JInt n)) cp = Inr False"
  by (simp add: nodata_mismatch_def subscript2_def then_do_def merged_defs)

lemma mismatch_full_nan_sad:
  "nodata_mismatch (merged_full (JFloat NaN)) [(''pipeline'', JDict sad_pipeline)] = Inr True"
  by (simp add: nodata_mismatch_def subscript2_def subscript3_def then_do_def merged_defs
      sad_pipeline_def)

lemma mismatch_estimation_inf:
  "nodata_mismatch (merged_estimation (JFloat PosInf)) [(''pipeline'', JDict estimation_only_pipeline)]
   = Inl (KeyError ''matching_cost'')"
  by (simp add: nodata_mismatch_def subscript2_def subscript3_def then_do_def merged_defs
      estimation_only_pipeline_def)

lemma method_sad:
  "subscript3 [(''pipeline'', JDict sad_pipeline)] ''pipeline'' ''matching_cost'' ''matching_cost_method''
   = Inr (JStr ''sad'')"
  by (simp add: subscript3_def subscript2_def then_do_def sad_pipeline_def)

lemma nodata_of_merged_full:
  "subscript2 (merged_full v) ''input'' ''nodata_right'' = Inr v"
  by (simp add: subscript2_def then_do_def merged_defs)

lemma nodata_of_merged_estimation:
  "subscript2 (merged_estimation v) ''input'' ''nodata_right'' = Inr v"
  by (simp add: subscript2_def then_do_def merged_defs)


section \<open>The order of the checks and the kinds of failure\<close>

lemma nodata_mismatch_method:
  assumes "subscript2 cfg_input ''input'' ''nodata_right'' = Inr (JFloat f)"
      and "subscript3 cfg_pipeline ''pipeline'' ''matching_cost'' ''matching_cost_method'' = Inr (JStr method)"
      and "method = ''sad'' \<or> method = ''ssd''"
  shows "nodata_mismatch cfg_input cfg_pipeline = Inr True"
  using assms by (auto simp: nodata_mismatch_float then_do_Inr)

lemma nodata_mismatch_no_matching_cost:
  assumes "subscript2 cfg_input ''input'' ''nodata_right'' = Inr (JFloat f)"
      and "map_of cfg_pipeline ''pipeline'' = Some (JDict steps)"
      and "''matching_cost'' \<notin> fst ` set steps"
  shows "nodata_mismatch cfg_input cfg_pipeline = Inl (KeyError ''matching_cost'')"
proof -
  from assms(3) have "map_of steps ''matching_cost'' = None"
    by (simp add: map_of_eq_None_iff)
  with assms(2)
  have "subscript3 cfg_pipeline ''pipeline'' ''matching_cost'' ''matching_cost_method''
      = Inl (KeyError ''matching_cost'')"
    by (simp add: subscript3_def subscript2_def then_do_Inl then_do_Inr)
  with assms(1) show ?thesis
    by (simp add: nodata_mismatch_float then_do_Inl)
qed

lemma validated_float_is_sentinel:
  assumes "check_input_section ext user_cfg flag_estim = Inr cfg_input"
      and "subscript2 cfg_input ''input'' ''nodata_right'' = Inr (JFloat f)"
  shows "f = NaN \<or> f = PosInf \<or> f = NegInf"
  using check_input_section_nodata [OF assms(1)] assms(2) by auto

text \<open>
  C9: \<^verbatim>\<open>check_conf\<close> runs its checks in this order, and the first failure is the
  result of the call: (0) the test of estimation against disparity bounds, on the user
  configuration as given; (1) the state machine's check of the pipeline section;
  (2) the merge with the defaults and the validation of the input section, against the
  one schema that the estimation flag selects; (3) the test of \<^verbatim>\<open>nodata_right\<close>
  against the matching cost method; (4) the concatenation of the two validated
  sections, which is the result.
\<close>

theorem check_conf_order:
  "(exclusivity_gate user_cfg = Inl e \<longrightarrow> check_conf ext user_cfg m = Inl e)
   \<and> (exclusivity_gate user_cfg = Inr flag_estim
        \<and> check_pipeline_section (get_config_pipeline user_cfg) m = Inl e
      \<longrightarrow> check_conf ext user_cfg m = Inl e)
   \<and> (exclusivity_gate user_cfg = Inr flag_estim
        \<and> check_pipeline_section (get_config_pipeline user_cfg) m = Inr cfg_pipeline
        \<and> check_input_section ext (get_config_input user_cfg) flag_estim = Inl e
      \<longrightarrow> check_conf ext user_cfg m = Inl e)
   \<and> (exclusivity_gate user_cfg = Inr flag_estim
        \<and> check_pipeline_section (get_config_pipeline user_cfg) m = Inr cfg_pipeline
        \<and> check_input_section ext (get_config_input user_cfg) flag_estim = Inr cfg_input
        \<and> nodata_mismatch cfg_input cfg_pipeline = Inl e
      \<longrightarrow> check_conf ext user_cfg m = Inl e)
   \<and> (exclusivity_gate user_cfg = Inr flag_estim
        \<and> check_pipeline_section (get_config_pipeline user_cfg) m = Inr cfg_pipeline
        \<and> check_input_section ext (get_config_input user_cfg) flag_estim = Inr cfg_input
        \<and> nodata_mismatch cfg_input cfg_pipeline = Inr True
      \<longrightarrow> check_conf ext user_cfg m = Inl (SystemExit 1 nodata_message))
   \<and> (exclusivity_gate user_cfg = Inr flag_estim
        \<and> check_pipeline_section (get_config_pipeline user_cfg) m = Inr cfg_pipeline
        \<and> check_input_section ext (get_config_input user_cfg) flag_estim = Inr cfg_input
        \<and> nodata_mismatch cfg_input cfg_pipeline = Inr False
      \<longrightarrow> check_conf ext user_cfg m = Inr (concat_conf [cfg_input, cfg_pipeline]))"
proof (intro conjI impI; (elim conjE)?)
  assume "exclusivity_gate user_cfg = Inl e"
  then show "check_conf ext user_cfg m = Inl e" by (rule check_conf_gate_fails)
next
  assume "exclusivity_gate user_cfg = Inr flag_estim"
    "check_pipeline_section (get_config_pipeline user_cfg) m = Inl e"
  then show "check_conf ext user_cfg m = Inl e" by (rule check_conf_pipeline_fails)
next
  assume "exclusivity_gate user_cfg = Inr flag_estim"
    "check_pipeline_section (get_config_pipeline user_cfg) m = Inr cfg_pipeline"
    "check_input_section ext (get_config_input user_cfg) flag_estim = Inl e"
  then show "check_conf ext user_cfg m = Inl e" by (rule check_conf_input_fails)
next
  assume "exclusivity_gate user_cfg = Inr flag_estim"
    "check_pipeline_section (get_config_pipeline user_cfg) m = Inr cfg_pipeline"
    "check_input_section ext (get_config_input user_cfg) flag_estim = Inr cfg_input"
    and "nodata_mismatch cfg_input cfg_pipeline = Inl e"
  then show "check_conf ext user_cfg m = Inl e"
    by (simp add: check_conf_sections_pass then_do_Inl)
next
  assume "exclusivity_gate user_cfg = Inr flag_estim"
    "check_pipeline_section (get_config_pipeline user_cfg) m = Inr cfg_pipeline"
    "check_input_section ext (get_config_input user_cfg) flag_estim = Inr cfg_input"
    and "nodata_mismatch cfg_input cfg_pipeline = Inr True"
  then show "check_conf ext user_cfg m = Inl (SystemExit 1 nodata_message)"
    by (simp add: check_conf_sections_pass then_do_Inr)
next
  assume "exclusivity_gate user_cfg = Inr flag_estim"
    "check_pipeline_section (get_config_pipeline user_cfg) m = Inr cfg_pipeline"
    "check_input_section ext (get_config_input user_cfg) flag_estim = Inr cfg_input"
    and "nodata_mismatch cfg_input cfg_pipeline = Inr False"
  then show "check_conf ext user_cfg m = Inr (concat_conf [cfg_input, cfg_pipeline])"
    by (simp add: check_conf_sections_pass then_do_Inr)
qed

theorem check_conf_order_witness:
  "check_conf lenient (user_configuration (full_input (JInt 9999)) estimation_pipeline)
       refusing_machine = Inl (SystemExit 1 exclusivity_message)
   \<and> check_conf no_files (user_configuration (full_input (JFloat NaN)) sad_pipeline)
       refusing_machine = Inl StateMachineViolation
   \<and> check_conf no_files (user_configuration (full_input (JFloat NaN)) sad_pipeline)
       accepting_machine
       = Inl (SchemaViolation [Unmet [''input'', ''img_left''], Unmet [''input'', ''img_right'']])
   \<and> check_conf lenient (user_configuration (estimation_input (JFloat PosInf)) estimation_only_pipeline)
       accepting_machine = Inl (KeyError ''matching_cost'')
   \<and> check_conf lenient (user_configuration (full_input (JFloat NaN)) sad_pipeline)
       accepting_machine = Inl (SystemExit 1 nodata_message)
   \<and> check_conf lenient (user_configuration (full_input (JInt 9999)) sad_pipeline)
       accepting_machine
       = Inr (concat_conf [merged_full (JInt 9999), [(''pipeline'', JDict sad_pipeline)]])"
proof -
  have gate_both: "exclusivity_gate (user_configuration (full_input (JInt 9999)) estimation_pipeline)
      = Inl (SystemExit 1 exclusivity_message)"
    by (simp add: gate_defs example_defs)
  have input_no_files: "check_input_section no_files
      (get_config_input (user_configuration (full_input (JFloat NaN)) sad_pipeline)) False
      = Inl (SchemaViolation [Unmet [''input'', ''img_left''], Unmet [''input'', ''img_right'']])"
    by (simp add: run_defs schema_defs example_defs no_files_def)
  note order = check_conf_order [THEN conjunct1, rule_format]
    check_conf_order [THEN conjunct2, THEN conjunct1, rule_format, OF conjI]
    check_conf_order [THEN conjunct2, THEN conjunct2, THEN conjunct1, rule_format, OF conjI, OF _ conjI]
    check_conf_order [THEN conjunct2, THEN conjunct2, THEN conjunct2, THEN conjunct1, rule_format,
      OF conjI, OF _ conjI, OF _ _ conjI]
    check_conf_order [THEN conjunct2, THEN conjunct2, THEN conjunct2, THEN conjunct2, THEN conjunct1,
      rule_format, OF conjI, OF _ conjI, OF _ _ conjI]
    check_conf_order [THEN conjunct2, THEN conjunct2, THEN conjunct2, THEN conjunct2, THEN conjunct2,
      rule_format, OF conjI, OF _ conjI, OF _ _ conjI]
  show ?thesis
  proof (intro conjI)
    show "check_conf lenient (user_configuration (full_input (JInt 9999)) estimation_pipeline)
       refusing_machine = Inl (SystemExit 1 exclusivity_message)"
      by (rule order(1) [OF gate_both])
    show "check_conf no_files (user_configuration (full_input (JFloat NaN)) sad_pipeline)
       refusing_machine = Inl StateMachineViolation"
      by (rule order(2) [OF gate_standard pipeline_refused])
    show "check_conf no_files (user_configuration (full_input (JFloat NaN)) sad_pipeline)
       accepting_machine
       = Inl (SchemaViolation [Unmet [''input'', ''img_left''], Unmet [''input'', ''img_right'']])"
      by (rule order(3) [OF gate_standard pipeline_standard input_no_files])
    show "check_conf lenient (user_configuration (estimation_input (JFloat PosInf)) estimation_only_pipeline)
       accepting_machine = Inl (KeyError ''matching_cost'')"
      by (rule order(4) [OF gate_estimation pipeline_estimation input_estimation_inf
            mismatch_estimation_inf])
    show "check_conf lenient (user_configuration (full_input (JFloat NaN)) sad_pipeline)
       accepting_machine = Inl (SystemExit 1 nodata_message)"
      by (rule order(5) [OF gate_standard pipeline_standard input_full_nan mismatch_full_nan_sad])
    show "check_conf lenient (user_configuration (full_input (JInt 9999)) sad_pipeline)
       accepting_machine
       = Inr (concat_conf [merged_full (JInt 9999), [(''pipeline'', JDict sad_pipeline)]])"
      by (rule order(6) [OF gate_standard pipeline_standard input_full_int mismatch_full_int])
  qed
qed


text \<open>
  A configuration with both an estimation step and the four bounds, on a state machine
  that refuses its pipeline: the run ends on the disparities and the estimation, and the
  state machine is not heard.
\<close>

theorem consistency_before_state_machine_counterexample:
  "check_conf lenient (user_configuration (full_input (JInt 9999)) estimation_pipeline)
       refusing_machine = Inl (SystemExit 1 exclusivity_message)
   \<and> check_pipeline_section
       (get_config_pipeline (user_configuration (full_input (JInt 9999)) estimation_pipeline))
       refusing_machine = Inl StateMachineViolation"
  by (simp add: check_conf_def gate_defs run_defs example_defs)




text \<open>
  C2: for a configuration that passes the exclusivity test and the pipeline check, and
  whose validated pipeline has \<^verbatim>\<open>sad\<close> or \<^verbatim>\<open>ssd\<close> as matching cost method:
  \<^item> a finite float \<^verbatim>\<open>nodata_right\<close> in the merged input section is refused by the
    input schema: the call fails with a schema violation that names it;
  \<^item> if \<^verbatim>\<open>check_input_section\<close> returns (the whole input section meets the schema,
    and the image check and the two disparity checks pass) with a float
    \<^verbatim>\<open>nodata_right\<close>, that float is NaN or an infinity, and the run ends with status 1
    and the message on \<^verbatim>\<open>nodata_right\<close>;
  \<^item> if \<^verbatim>\<open>check_input_section\<close> returns with an integer \<^verbatim>\<open>nodata_right\<close>, the
    configuration is returned.
\<close>

theorem check_conf_nodata_rule:
  assumes gate: "exclusivity_gate user_cfg = Inr flag_estim"
      and pipe: "check_pipeline_section (get_config_pipeline user_cfg) m = Inr cfg_pipeline"
      and meth: "subscript3 cfg_pipeline ''pipeline'' ''matching_cost'' ''matching_cost_method''
                   = Inr (JStr method)"
      and sad: "method = ''sad'' \<or> method = ''ssd''"
  shows "(map_of (update_conf default_short_configuration_input (get_config_input user_cfg)) ''input''
              = Some (JDict merged)
            \<and> map_of merged ''nodata_right'' = Some (JFloat (Finite r))
          \<longrightarrow> (\<exists>vs. check_conf ext user_cfg m = Inl (SchemaViolation vs)
                  \<and> Unmet [''input'', ''nodata_right''] \<in> set vs))
       \<and> (check_input_section ext (get_config_input user_cfg) flag_estim = Inr cfg_input
            \<and> subscript2 cfg_input ''input'' ''nodata_right'' = Inr (JFloat f)
          \<longrightarrow> (f = NaN \<or> f = PosInf \<or> f = NegInf)
              \<and> check_conf ext user_cfg m = Inl (SystemExit 1 nodata_message))
       \<and> (check_input_section ext (get_config_input user_cfg) flag_estim = Inr cfg_input
            \<and> subscript2 cfg_input ''input'' ''nodata_right'' = Inr (JInt n)
          \<longrightarrow> check_conf ext user_cfg m = Inr (concat_conf [cfg_input, cfg_pipeline]))"
proof (intro conjI impI; (elim conjE)?)
  assume merged: "map_of (update_conf default_short_configuration_input (get_config_input user_cfg)) ''input''
              = Some (JDict merged)"
    and finite: "map_of merged ''nodata_right'' = Some (JFloat (Finite r))"
  have "\<exists>vs. check_input_section ext (get_config_input user_cfg) flag_estim = Inl (SchemaViolation vs)
              \<and> Unmet [''input'', ''nodata_right''] \<in> set vs"
    by (rule input_field_violation [OF nodata_key_schema merged finite]) simp_all
  with check_conf_input_fails [OF gate pipe]
  show "\<exists>vs. check_conf ext user_cfg m = Inl (SchemaViolation vs)
                  \<and> Unmet [''input'', ''nodata_right''] \<in> set vs"
    by blast
next
  assume inp: "check_input_section ext (get_config_input user_cfg) flag_estim = Inr cfg_input"
    and float: "subscript2 cfg_input ''input'' ''nodata_right'' = Inr (JFloat f)"
  from inp float show "f = NaN \<or> f = PosInf \<or> f = NegInf"
    by (rule validated_float_is_sentinel)
  from float meth sad have "nodata_mismatch cfg_input cfg_pipeline = Inr True"
    by (rule nodata_mismatch_method)
  then show "check_conf ext user_cfg m = Inl (SystemExit 1 nodata_message)"
    by (simp add: check_conf_sections_pass [OF gate pipe inp] then_do_Inr)
next
  assume inp: "check_input_section ext (get_config_input user_cfg) flag_estim = Inr cfg_input"
    and int: "subscript2 cfg_input ''input'' ''nodata_right'' = Inr (JInt n)"
  from int have "nodata_mismatch cfg_input cfg_pipeline = Inr False"
    by (rule nodata_mismatch_not_float) simp
  then show "check_conf ext user_cfg m = Inr (concat_conf [cfg_input, cfg_pipeline])"
    by (simp add: check_conf_sections_pass [OF gate pipe inp] then_do_Inr)
qed

theorem check_conf_nodata_rule_witness:
  "(\<exists>vs. check_conf lenient
            (user_configuration (full_input (JFloat (Finite (19999 / 2)))) sad_pipeline)
            accepting_machine = Inl (SchemaViolation vs)
         \<and> Unmet [''input'', ''nodata_right''] \<in> set vs)
   \<and> check_conf lenient (user_configuration (full_input (JFloat NaN)) sad_pipeline)
       accepting_machine = Inl (SystemExit 1 nodata_message)
   \<and> check_conf lenient (user_configuration (full_input (JInt 9999)) sad_pipeline)
       accepting_machine
       = Inr (concat_conf [merged_full (JInt 9999), [(''pipeline'', JDict sad_pipeline)]])"
proof -
  have sad: "''sad'' = ''sad'' \<or> ''sad'' = ''ssd''" by simp
  note rule = check_conf_nodata_rule [OF gate_standard pipeline_standard method_sad sad]
  have a: "\<exists>vs. check_conf lenient
            (user_configuration (full_input (JFloat (Finite (19999 / 2)))) sad_pipeline)
            accepting_machine = Inl (SchemaViolation vs)
         \<and> Unmet [''input'', ''nodata_right''] \<in> set vs"
  proof (rule rule [THEN conjunct1, rule_format, OF conjI])
    show "map_of (update_conf default_short_configuration_input
             (get_config_input (user_configuration (full_input (JFloat (Finite (19999 / 2))))
                sad_pipeline))) ''input''
          = Some (JDict (merged_full_input (JFloat (Finite (19999 / 2)))))"
      by (simp add: merge_full merged_full_def)
    show "map_of (merged_full_input (JFloat (Finite (19999 / 2)))) ''nodata_right''
          = Some (JFloat (Finite (19999 / 2)))"
      by (simp add: merged_full_input_def)
  qed
  have b: "check_conf lenient (user_configuration (full_input (JFloat NaN)) sad_pipeline)
       accepting_machine = Inl (SystemExit 1 nodata_message)"
    using rule [THEN conjunct2, THEN conjunct1, rule_format, OF conjI,
        OF input_full_nan nodata_of_merged_full]
    by simp
  have c: "check_conf lenient (user_configuration (full_input (JInt 9999)) sad_pipeline)
       accepting_machine
       = Inr (concat_conf [merged_full (JInt 9999), [(''pipeline'', JDict sad_pipeline)]])"
    by (rule rule [THEN conjunct2, THEN conjunct2, rule_format, OF conjI,
        OF input_full_int nodata_of_merged_full])
  from a b c show ?thesis by blast
qed

text \<open>
  With \<^verbatim>\<open>sad\<close> and \<^verbatim>\<open>nodata_right\<close> at 9999.5 the call fails in the schema checker
  and not with an exit.
\<close>

theorem finite_float_nodata_counterexample:
  "check_conf lenient (user_configuration (full_input (JFloat (Finite (19999 / 2)))) sad_pipeline)
     accepting_machine
   = Inl (SchemaViolation [Unmet [''input'', ''nodata_right'']])"
  by (simp add: check_conf_def gate_defs run_defs schema_defs example_defs)

text \<open>
  C10: the matching cost method is read only when the validated \<^verbatim>\<open>nodata_right\<close> is
  a float.  For a configuration that passes the exclusivity test and both sections and whose
  validated pipeline has no \<^verbatim>\<open>matching_cost\<close> step: with an integer
  \<^verbatim>\<open>nodata_right\<close> the configuration is returned; with a float (which is then NaN or
  an infinity, the only floats that the schema lets through) the call fails with the
  \<^verbatim>\<open>KeyError\<close> of the subscript.
\<close>

theorem check_conf_matching_cost_lookup:
  assumes gate: "exclusivity_gate user_cfg = Inr flag_estim"
      and pipe: "check_pipeline_section (get_config_pipeline user_cfg) m = Inr cfg_pipeline"
      and steps: "map_of cfg_pipeline ''pipeline'' = Some (JDict steps)"
      and none: "''matching_cost'' \<notin> fst ` set steps"
      and inp: "check_input_section ext (get_config_input user_cfg) flag_estim = Inr cfg_input"
  shows "(subscript2 cfg_input ''input'' ''nodata_right'' = Inr (JInt n)
          \<longrightarrow> check_conf ext user_cfg m = Inr (concat_conf [cfg_input, cfg_pipeline]))
       \<and> (subscript2 cfg_input ''input'' ''nodata_right'' = Inr (JFloat f)
          \<longrightarrow> (f = NaN \<or> f = PosInf \<or> f = NegInf)
              \<and> check_conf ext user_cfg m = Inl (KeyError ''matching_cost''))"
proof (intro conjI impI)
  assume int: "subscript2 cfg_input ''input'' ''nodata_right'' = Inr (JInt n)"
  from int have "nodata_mismatch cfg_input cfg_pipeline = Inr False"
    by (rule nodata_mismatch_not_float) simp
  then show "check_conf ext user_cfg m = Inr (concat_conf [cfg_input, cfg_pipeline])"
    by (simp add: check_conf_sections_pass [OF gate pipe inp] then_do_Inr)
next
  assume float: "subscript2 cfg_input ''input'' ''nodata_right'' = Inr (JFloat f)"
  from inp float show "f = NaN \<or> f = PosInf \<or> f = NegInf"
    by (rule validated_float_is_sentinel)
  from float steps none have "nodata_mismatch cfg_input cfg_pipeline = Inl (KeyError ''matching_cost'')"
    by (rule nodata_mismatch_no_matching_cost)
  then show "check_conf ext user_cfg m = Inl (KeyError ''matching_cost'')"
    by (simp add: check_conf_sections_pass [OF gate pipe inp] then_do_Inl)
qed

theorem check_conf_matching_cost_lookup_witness:
  "check_conf lenient
     (user_configuration (estimation_input (JInt 9999)) estimation_only_pipeline) accepting_machine
     = Inr (concat_conf [merged_estimation (JInt 9999),
                         [(''pipeline'', JDict estimation_only_pipeline)]])
   \<and> check_conf lenient
     (user_configuration (estimation_input (JFloat PosInf)) estimation_only_pipeline)
     accepting_machine = Inl (KeyError ''matching_cost'')"
proof -
  have steps: "map_of [(''pipeline'', JDict estimation_only_pipeline)] ''pipeline''
      = Some (JDict estimation_only_pipeline)" by simp
  have none: "''matching_cost'' \<notin> fst ` set estimation_only_pipeline"
    by (simp add: estimation_only_pipeline_def)
  have a: "check_conf lenient
     (user_configuration (estimation_input (JInt 9999)) estimation_only_pipeline) accepting_machine
     = Inr (concat_conf [merged_estimation (JInt 9999),
                         [(''pipeline'', JDict estimation_only_pipeline)]])"
    by (rule check_conf_matching_cost_lookup [OF gate_estimation pipeline_estimation steps none
          input_estimation_int, THEN conjunct1, rule_format, OF nodata_of_merged_estimation])
  have b: "check_conf lenient
     (user_configuration (estimation_input (JFloat PosInf)) estimation_only_pipeline)
     accepting_machine = Inl (KeyError ''matching_cost'')"
    using check_conf_matching_cost_lookup [OF gate_estimation pipeline_estimation steps none
          input_estimation_inf, THEN conjunct2, rule_format, OF nodata_of_merged_estimation]
    by simp
  from a b show ?thesis by blast
qed


text \<open>
  An estimation pipeline without \<^verbatim>\<open>matching_cost\<close> and \<^verbatim>\<open>nodata_right\<close> at 9999.5:
  the schema checker fails first, and no key is looked up.
\<close>

theorem finite_float_no_matching_cost_counterexample:
  "check_conf lenient
     (user_configuration (estimation_input (JFloat (Finite (19999 / 2)))) estimation_only_pipeline)
     accepting_machine
   = Inl (SchemaViolation [Unmet [''input'', ''nodata_right'']])"
  by (simp add: check_conf_def gate_defs run_defs schema_defs example_defs more_defs)

end
